theory Spec2Isabelle
  imports Complex_Main "HOL-Library.Sublist" "HOL-Library.AList"
begin

section \<open>Strings\<close>

text \<open>
  Python strings are modelled as HOL strings; a \<^typ>\<open>char\<close> stands for a code point
  below 256.  \<open>isspace\<close> lists the code points below 256 that Python's
  \<^verbatim>\<open>str.isspace\<close> accepts, which are the ones \<^verbatim>\<open>str.strip()\<close> removes.
\<close>

definition isspace :: "char \<Rightarrow> bool" where
  "isspace c = (of_char c \<in> {9, 10, 11, 12, 13, 28, 29, 30, 31, 32, 133, 160 :: nat})"

definition strip :: "string \<Rightarrow> string" where
  "strip s = rev (dropWhile isspace (rev (dropWhile isspace s)))"

text \<open>
  \<^verbatim>\<open>s.replace(old, new)\<close>: the occurrences of \<open>old\<close> are found from the left and
  do not overlap; the scan goes on behind each occurrence.  For an empty \<open>old\<close>
  Python puts \<open>new\<close> before every character and at the end.
\<close>

function replace_from :: "'a list \<Rightarrow> 'a list \<Rightarrow> 'a list \<Rightarrow> 'a list" where
  "replace_from old new [] = []"
| "replace_from old new (c # cs) =
     (if old \<noteq> [] \<and> prefix old (c # cs)
      then new @ replace_from old new (drop (length old) (c # cs))
      else c # replace_from old new cs)"
  by pat_completeness auto
termination
  by (relation "measure (\<lambda>(old, new, s). length s)") auto

definition replace :: "'a list \<Rightarrow> 'a list \<Rightarrow> 'a list \<Rightarrow> 'a list" where
  "replace s old new =
     (if old = [] then new @ concat (map (\<lambda>c. c # new) s) else replace_from old new s)"

text \<open>
  \<^verbatim>\<open>clean_ai_text\<close> (app.py, line 148).  The argument is \<open>None\<close> or a string; both
  \<open>None\<close> and the empty string are falsy and give the empty string.
\<close>

definition clean_ai_text :: "string option \<Rightarrow> string" where
  "clean_ai_text text =
     (case text of
        None \<Rightarrow> []
      | Some t \<Rightarrow>
          if t = [] then []
          else strip (replace (replace (replace t ''```html'' []) ''```json'' []) ''```'' []))"

section \<open>Responses, sessions and the stored data\<close>

text \<open>
  What \<^verbatim>\<open>jsonify\<close> is given, and what a handler returns: a body and an HTTP
  status (200 where the handler names none).  \<open>Framework_Error\<close> is the error page
  Flask produces for an exception that the handler does not catch.
\<close>

datatype json =
    JNull
  | JBool bool
  | JInt int
  | JFloat real
  | JStr string
  | JArr "json list"
  | JObj "(string \<times> json) list"

datatype body =
    Json json
  | Text string
  | Attachment string
  | Framework_Error

record response =
  body :: body
  status :: nat

definition json_field :: "string \<Rightarrow> response \<Rightarrow> json option" where
  "json_field k r = (case body r of Json (JObj kvs) \<Rightarrow> map_of kvs k | _ \<Rightarrow> None)"

definition ok_json :: "(string \<times> json) list \<Rightarrow> response" where
  "ok_json kvs = \<lparr>body = Json (JObj kvs), status = 200\<rparr>"

definition failure :: "string \<Rightarrow> nat \<Rightarrow> response" where
  "failure msg code =
     \<lparr>body = Json (JObj [(''success'', JBool False), (''error'', JStr msg)]), status = code\<rparr>"

text \<open>
  The result of a call into an external library or service: it raises, with the text
  \<^verbatim>\<open>str(e)\<close> of the exception, or it returns.
\<close>

datatype 'a outcome = Raises string | Returns 'a

definition obind :: "'a outcome \<Rightarrow> ('a \<Rightarrow> 'b outcome) \<Rightarrow> 'b outcome" where
  "obind r f = (case r of Raises e \<Rightarrow> Raises e | Returns x \<Rightarrow> f x)"

text \<open>
  The Flask session of one client.  A key that is absent is \<open>None\<close>;
  \<^verbatim>\<open>session.get('is_admin')\<close> is truthy exactly when the flag is stored as \<open>True\<close>.
\<close>

record message =
  role :: string
  content :: "string option"

record session =
  is_admin :: "bool option"
  user_name :: "string option"
  chat_history :: "message list option"

definition admin_session :: "session \<Rightarrow> bool" where
  "admin_session sess = (is_admin sess = Some True)"

text \<open>
  The two tables (app.py, lines 69 and 76).  A timestamp is an instant of the clock, a
  natural number.  The database of the process is \<open>None\<close> while its tables are
  missing (the store in the temporary directory was wiped): every query and every
  commit raises then, and \<^verbatim>\<open>db.create_all()\<close> creates the empty tables.
\<close>

record user =
  id_user :: nat
  username :: string
  password_hash :: string

record activity_log =
  id_log :: nat
  user_id :: "nat option"
  activity_type :: string
  details :: string
  timestamp :: nat

record database =
  users :: "user list"
  logs :: "activity_log list"

definition create_all :: "database option \<Rightarrow> database option" where
  "create_all d = (case d of None \<Rightarrow> Some \<lparr>users = [], logs = []\<rparr> | Some x \<Rightarrow> Some x)"

definition filter_by_username :: "string option \<Rightarrow> database \<Rightarrow> user option" where
  "filter_by_username name d =
     (case name of None \<Rightarrow> None | Some n \<Rightarrow> find (\<lambda>u. username u = n) (users d))"

definition next_id :: "nat list \<Rightarrow> nat" where
  "next_id ids = Suc (fold max ids 0)"

text \<open>
  The state of the process that the handlers share: the counter dictionary (in its
  insertion order) and the database.
\<close>

record state =
  global_stats :: "(string \<times> int) list"
  db :: "database option"

definition initial_global_stats :: "(string \<times> int) list" where
  "initial_global_stats =
     [(''text_gen'', 0), (''audio_gen'', 0), (''transcribe'', 0), (''pdf_gen'', 0),
      (''chat_msgs'', 0), (''code_review'', 0), (''quiz_gen'', 0),
      (''file_conv'', 0), (''compression'', 0), (''vid_audio'', 0)]"

text \<open>
  \<^verbatim>\<open>log_activity\<close> (app.py, line 92).  The counter is incremented first, when the
  tag is a key of the dictionary.  The database part raises when the tables are missing;
  the exception is caught and printed, and the increment stays.
\<close>

definition log_activity :: "nat \<Rightarrow> string \<Rightarrow> string \<Rightarrow> session \<Rightarrow> state \<Rightarrow> state" where
  "log_activity now tag detail sess st =
     (let stats = (if tag \<in> fst ` set (global_stats st)
                   then AList.map_entry tag (\<lambda>n. n + 1) (global_stats st)
                   else global_stats st)
      in case db st of
           None \<Rightarrow> st\<lparr>global_stats := stats\<rparr>
         | Some d \<Rightarrow>
             let uid = (case user_name sess of
                          None \<Rightarrow> None
                        | Some n \<Rightarrow>
                            if n \<noteq> [] \<and> n \<noteq> ''Administrator''
                            then map_option id_user (filter_by_username (Some n) d)
                            else None);
                 new_log = \<lparr>id_log = next_id (map id_log (logs d)), user_id = uid,
                            activity_type = tag, details = detail, timestamp = now\<rparr>
             in st\<lparr>global_stats := stats, db := Some (d\<lparr>logs := logs d @ [new_log]\<rparr>)\<rparr>)"

section \<open>Accounts\<close>

text \<open>
  The configuration read from the environment at start-up (app.py, lines 59 to 63), and
  the fields that \<^verbatim>\<open>/login\<close> and \<^verbatim>\<open>/register\<close> read from the JSON body
  with \<^verbatim>\<open>data.get\<close>: a string, or \<open>None\<close> for a key that is absent.
\<close>

record config =
  API_KEY :: "string option"
  ADMIN_USER :: string
  ADMIN_PASS :: string

record credentials =
  json_username :: "string option"
  json_password :: "string option"
  json_role :: "string option"

text \<open>
  \<^verbatim>\<open>login\<close> (app.py, line 192).  \<open>check\<close> is werkzeug's
  \<^verbatim>\<open>check_password_hash\<close>, taken as a parameter; on a password that is \<open>None\<close>
  it raises, and the handler's \<^verbatim>\<open>except\<close> answers as for a missing table.
\<close>

definition login ::
  "config \<Rightarrow> (string \<Rightarrow> string \<Rightarrow> bool) \<Rightarrow> nat \<Rightarrow> credentials \<Rightarrow> session \<Rightarrow> state
     \<Rightarrow> response \<times> session \<times> state" where
  "login cfg check now data sess st =
     (if json_role data = Some ''admin'' then
        (if json_username data = Some (ADMIN_USER cfg) \<and> json_password data = Some (ADMIN_PASS cfg)
         then (ok_json [(''success'', JBool True)],
               sess\<lparr>is_admin := Some True, user_name := Some ''Administrator''\<rparr>, st)
         else (failure ''Invalid Admin Credentials'' 401, sess, st))
      else
        (let reset = (failure ''Database reset. Please Register again.'' 401, sess,
                      st\<lparr>db := create_all (db st)\<rparr>)
         in case db st of
              None \<Rightarrow> reset
            | Some d \<Rightarrow>
                (case filter_by_username (json_username data) d of
                   None \<Rightarrow> (failure ''Invalid Username or Password'' 401, sess, st)
                 | Some u \<Rightarrow>
                     (case json_password data of
                        None \<Rightarrow> reset
                      | Some pw \<Rightarrow>
                          if check (password_hash u) pw
                          then (let sess' = sess\<lparr>user_name := Some (username u),
                                                  is_admin := Some False\<rparr>
                                in (ok_json [(''success'', JBool True)], sess',
                                    log_activity now ''login'' ''User Logged In'' sess' st))
                          else (failure ''Invalid Username or Password'' 401, sess, st)))))"

text \<open>
  \<^verbatim>\<open>db.session.add(new_user); db.session.commit()\<close>: the commit raises when the
  table is missing and when the username is already stored (the column is unique).  The
  texts stand for the library's \<^verbatim>\<open>str(e)\<close>.
\<close>

definition add_user :: "string \<Rightarrow> string \<Rightarrow> database option \<Rightarrow> database outcome" where
  "add_user name hashed_pw d =
     (case d of
        None \<Rightarrow> Raises ''no such table: user''
      | Some x \<Rightarrow>
          if name \<in> username ` set (users x)
          then Raises ''UNIQUE constraint failed: user.username''
          else Returns (x\<lparr>users := users x @
                 [\<lparr>id_user = next_id (map id_user (users x)), username = name,
                   password_hash = hashed_pw\<rparr>]\<rparr>))"

text \<open>
  \<^verbatim>\<open>register\<close> (app.py, line 225).  \<open>generate_password_hash\<close> is werkzeug's, with
  the salt it draws.  When the existence check raises, the tables are created and the
  handler goes on to store the user.
\<close>

definition register :: "(string \<Rightarrow> string) \<Rightarrow> credentials \<Rightarrow> state \<Rightarrow> response \<times> state" where
  "register generate_password_hash data st =
     (case (json_username data, json_password data) of
        (Some name, Some password) \<Rightarrow>
          if name = [] \<or> password = []
          then (failure ''Username and password required'' 400, st)
          else if (case db st of
                     None \<Rightarrow> False
                   | Some d \<Rightarrow> filter_by_username (Some name) d \<noteq> None)
          then (failure ''Username already taken'' 400, st)
          else
            (let d1 = (case db st of None \<Rightarrow> create_all (db st) | Some d \<Rightarrow> Some d)
             in case add_user name (generate_password_hash password) d1 of
                  Returns d2 \<Rightarrow> (ok_json [(''success'', JBool True)], st\<lparr>db := Some d2\<rparr>)
                | Raises e \<Rightarrow> (failure e 500, st\<lparr>db := d1\<rparr>))
      | _ \<Rightarrow> (failure ''Username and password required'' 400, st))"

section \<open>Text formatting\<close>

text \<open>
  The string methods the report uses, on ASCII letters: \<^verbatim>\<open>str.upper\<close>,
  \<^verbatim>\<open>str.lower\<close>, \<^verbatim>\<open>str.title\<close> (a letter is upper case after a character
  that is no letter, lower case after a letter), \<^verbatim>\<open>str(n)\<close> of an integer and the
  left-aligned padding of a format field.
\<close>

definition is_upper :: "char \<Rightarrow> bool" where
  "is_upper c = (65 \<le> (of_char c :: nat) \<and> (of_char c :: nat) \<le> 90)"

definition is_lower :: "char \<Rightarrow> bool" where
  "is_lower c = (97 \<le> (of_char c :: nat) \<and> (of_char c :: nat) \<le> 122)"

definition upper_char :: "char \<Rightarrow> char" where
  "upper_char c = (if is_lower c then char_of (of_char c - (32 :: nat)) else c)"

definition lower_char :: "char \<Rightarrow> char" where
  "lower_char c = (if is_upper c then char_of (of_char c + (32 :: nat)) else c)"

definition upper :: "string \<Rightarrow> string" where
  "upper s = map upper_char s"

definition lower :: "string \<Rightarrow> string" where
  "lower s = map lower_char s"

fun title_from :: "bool \<Rightarrow> string \<Rightarrow> string" where
  "title_from after_letter [] = []"
| "title_from after_letter (c # cs) =
     (if is_upper c \<or> is_lower c
      then (if after_letter then lower_char c else upper_char c) # title_from True cs
      else c # title_from False cs)"

definition title :: "string \<Rightarrow> string" where
  "title s = title_from False s"

function str_nat :: "nat \<Rightarrow> string" where
  "str_nat n = (if n < 10 then [char_of (48 + n)]
                else str_nat (n div 10) @ [char_of (48 + n mod 10)])"
  by pat_completeness auto
termination
  by (relation "measure (\<lambda>n. n)") auto

definition str_int :: "int \<Rightarrow> string" where
  "str_int i = (if i < 0 then CHR ''-'' # str_nat (nat (- i)) else str_nat (nat i))"

definition ljust :: "nat \<Rightarrow> string \<Rightarrow> string" where
  "ljust w s = s @ replicate (w - length s) CHR '' ''"

definition fstr :: "string option \<Rightarrow> string" where
  "fstr v = (case v of None \<Rightarrow> ''None'' | Some t \<Rightarrow> t)"

section \<open>The admin endpoints\<close>

text \<open>
  \<^verbatim>\<open>get_stats\<close> (app.py, line 294).  The two arguments are what the psutil probes
  answer; they are called for an admin session only, and a probe that raises leaves
  its value and the ones behind it at 0.
\<close>

definition get_stats :: "real outcome \<Rightarrow> real outcome \<Rightarrow> session \<Rightarrow> state \<Rightarrow> response" where
  "get_stats cpu_percent virtual_memory sess st =
     (let (cpu, ram) =
            (if admin_session sess then
               (case cpu_percent of
                  Raises e \<Rightarrow> (JInt 0, JInt 0)
                | Returns c \<Rightarrow>
                    (case virtual_memory of
                       Raises e \<Rightarrow> (JFloat c, JInt 0)
                     | Returns r \<Rightarrow> (JFloat c, JFloat r)))
             else (JInt 0, JInt 0))
      in ok_json [(''cpu'', cpu), (''ram'', ram),
                  (''usage'', JObj (map (\<lambda>(k, v). (k, JInt v)) (global_stats st)))])"

text \<open>
  Reading an attribute of a \<^verbatim>\<open>User\<close> object.  The model class (app.py, line 69)
  declares \<^verbatim>\<open>id\<close>, \<^verbatim>\<open>username\<close>, \<^verbatim>\<open>password_hash\<close> and the relationship
  \<^verbatim>\<open>activities\<close>; any other name raises \<^verbatim>\<open>AttributeError\<close>.
\<close>

datatype attr = Int_attr nat | Str_attr string | Logs_attr "activity_log list"

definition getattr_user :: "database \<Rightarrow> user \<Rightarrow> string \<Rightarrow> attr outcome" where
  "getattr_user d u name =
     (if name = ''id'' then Returns (Int_attr (id_user u))
      else if name = ''username'' then Returns (Str_attr (username u))
      else if name = ''password_hash'' then Returns (Str_attr (password_hash u))
      else if name = ''activities''
      then Returns (Logs_attr (filter (\<lambda>l. user_id l = Some (id_user u)) (logs d)))
      else Raises ([CHR 0x27] @ ''User'' @ [CHR 0x27] @ '' object has no attribute ''
                   @ [CHR 0x27] @ name @ [CHR 0x27]))"

fun attr_json :: "attr \<Rightarrow> json" where
  "attr_json (Int_attr n) = JInt (int n)"
| "attr_json (Str_attr t) = JStr t"
| "attr_json (Logs_attr ls) = JArr (map (\<lambda>l. JInt (int (id_log l))) ls)"

fun or_default :: "attr \<Rightarrow> string \<Rightarrow> json" where
  "or_default (Int_attr n) dflt = (if n = 0 then JStr dflt else JInt (int n))"
| "or_default (Str_attr t) dflt = (if t = [] then JStr dflt else JStr t)"
| "or_default (Logs_attr ls) dflt = (if ls = [] then JStr dflt else attr_json (Logs_attr ls))"

definition newest_first :: "activity_log list \<Rightarrow> activity_log list" where
  "newest_first ls = sort_key (\<lambda>l. - int (timestamp l)) ls"

text \<open>
  One pass of the loop of \<^verbatim>\<open>get_users_list\<close> (app.py, lines 316 to 334): the
  values of the dictionary are evaluated in the order they are written.
\<close>

definition user_row :: "(string \<Rightarrow> nat \<Rightarrow> string) \<Rightarrow> database \<Rightarrow> user \<Rightarrow> json outcome" where
  "user_row strftime d u =
     (let own = filter (\<lambda>l. user_id l = Some (id_user u)) (logs d);
          last_seen = (case newest_first own of
                         [] \<Rightarrow> ''Never''
                       | l # ls \<Rightarrow> strftime ''%Y-%m-%d %H:%M'' (timestamp l));
          action_count = length own
      in obind (getattr_user d u ''id'') (\<lambda>i.
         obind (getattr_user d u ''username'') (\<lambda>n.
         obind (getattr_user d u ''full_name'') (\<lambda>full.
         obind (getattr_user d u ''department'') (\<lambda>dep.
           Returns (JObj [(''id'', attr_json i), (''username'', attr_json n),
                          (''full_name'', or_default full ''N/A''),
                          (''department'', or_default dep ''N/A''),
                          (''last_seen'', JStr last_seen),
                          (''action_count'', JInt (int action_count))]))))))"

fun user_rows ::
  "(string \<Rightarrow> nat \<Rightarrow> string) \<Rightarrow> database \<Rightarrow> user list \<Rightarrow> json list \<Rightarrow> json list outcome" where
  "user_rows strftime d [] data = Returns data"
| "user_rows strftime d (u # us) data =
     obind (user_row strftime d u) (\<lambda>row. user_rows strftime d us (data @ [row]))"

definition unauthorized :: response where
  "unauthorized = \<lparr>body = Json (JObj [(''error'', JStr ''Unauthorized'')]), status = 403\<rparr>"

definition server_error :: "string \<Rightarrow> response" where
  "server_error e = \<lparr>body = Json (JObj [(''error'', JStr e)]), status = 500\<rparr>"

definition get_users_list :: "(string \<Rightarrow> nat \<Rightarrow> string) \<Rightarrow> session \<Rightarrow> state \<Rightarrow> response" where
  "get_users_list strftime sess st =
     (if \<not> admin_session sess then unauthorized
      else case db st of
             None \<Rightarrow> server_error ''no such table: user''
           | Some d \<Rightarrow>
               (case user_rows strftime d (users d) [] of
                  Raises e \<Rightarrow> server_error e
                | Returns data \<Rightarrow> \<lparr>body = Json (JArr data), status = 200\<rparr>))"

text \<open>
  \<^verbatim>\<open>log.user\<close>: the row of the user table that the foreign key names.
\<close>

definition log_user :: "database \<Rightarrow> activity_log \<Rightarrow> user option" where
  "log_user d l =
     (case user_id l of None \<Rightarrow> None | Some i \<Rightarrow> find (\<lambda>u. id_user u = i) (users d))"

definition log_username :: "database \<Rightarrow> activity_log \<Rightarrow> string" where
  "log_username d l = (case log_user d l of None \<Rightarrow> ''Admin/Guest'' | Some u \<Rightarrow> username u)"

definition last_100 :: "database \<Rightarrow> activity_log list" where
  "last_100 d = take 100 (newest_first (logs d))"

definition get_activity_logs_json ::
  "(string \<Rightarrow> nat \<Rightarrow> string) \<Rightarrow> session \<Rightarrow> state \<Rightarrow> response" where
  "get_activity_logs_json strftime sess st =
     (if \<not> admin_session sess then unauthorized
      else case db st of
             None \<Rightarrow> server_error ''no such table: activity_log''
           | Some d \<Rightarrow>
               \<lparr>body = Json (JArr (map (\<lambda>l.
                   JObj [(''date'', JStr (strftime ''%Y-%m-%d %H:%M'' (timestamp l))),
                         (''user'', JStr (log_username d l)),
                         (''action'', JStr (activity_type l)),
                         (''details'', JStr (details l))]) (last_100 d))),
                status = 200\<rparr>)"

text \<open>
  \<^verbatim>\<open>download_report\<close> (app.py, line 363).  \<open>str_datetime\<close> is \<^verbatim>\<open>str\<close> of a
  timestamp.  A query that raises leaves the list of logs empty.
\<close>

definition report_text ::
  "(string \<Rightarrow> nat \<Rightarrow> string) \<Rightarrow> (nat \<Rightarrow> string) \<Rightarrow> nat \<Rightarrow> state \<Rightarrow> string" where
  "report_text strftime str_datetime clock st =
     ''AI WORKSPACE - SYSTEM REPORT\<newline>Generated: ''
     @ strftime ''%Y-%m-%d %H:%M:%S'' clock @ ''\<newline>\<newline>''
     @ ''--- USAGE SUMMARY ---\<newline>''
     @ concat (map (\<lambda>(k, v). title (replace k ''_'' '' '') @ '': '' @ str_int v @ ''\<newline>'')
                 (global_stats st))
     @ ''\<newline>--- RECENT USER ACTIVITY (Last 100 Actions) ---\<newline>''
     @ ljust 25 ''TIMESTAMP'' @ '' | '' @ ljust 20 ''USER'' @ '' | '' @ ljust 20 ''ACTION''
     @ '' | '' @ ''DETAILS'' @ ''\<newline>''
     @ replicate 100 CHR ''-'' @ ''\<newline>''
     @ (case db st of
          None \<Rightarrow> []
        | Some d \<Rightarrow>
            concat (map (\<lambda>l. ljust 25 (str_datetime (timestamp l)) @ '' | ''
                             @ ljust 20 (log_username d l) @ '' | ''
                             @ ljust 20 (activity_type l) @ '' | '' @ details l @ ''\<newline>'')
                        (last_100 d)))"

definition download_report ::
  "(string \<Rightarrow> nat \<Rightarrow> string) \<Rightarrow> (nat \<Rightarrow> string) \<Rightarrow> nat \<Rightarrow> session \<Rightarrow> state \<Rightarrow> response" where
  "download_report strftime str_datetime clock sess st =
     (if \<not> admin_session sess then \<lparr>body = Text ''Unauthorized'', status = 401\<rparr>
      else \<lparr>body = Attachment (report_text strftime str_datetime clock st), status = 200\<rparr>)"

section \<open>The sweep of the static directory\<close>

text \<open>
  The static directory: \<open>None\<close> when it does not exist, else its entries by name.  An
  entry is a regular file or not, has a modification time (seconds, as
  \<^verbatim>\<open>time.time()\<close> counts them) and can be removed or not: \<^verbatim>\<open>os.remove\<close> raises
  on an entry that cannot be removed, and the sweep passes over the exception.
\<close>

record entry =
  is_file :: bool
  mtime :: real
  removable :: bool

type_synonym directory = "(string \<times> entry) list"

definition os_remove :: "string \<Rightarrow> directory \<Rightarrow> directory outcome" where
  "os_remove f dir =
     (case map_of dir f of
        None \<Rightarrow> Raises ''No such file or directory''
      | Some e \<Rightarrow> if removable e then Returns (AList.delete f dir)
                  else Raises ''Permission denied'')"

text \<open>
  The loop of \<^verbatim>\<open>cleanup_old_files\<close> (app.py, lines 133 to 138) over the names that
  \<^verbatim>\<open>os.listdir\<close> returned, and the function itself.
\<close>

fun sweep :: "real \<Rightarrow> string list \<Rightarrow> directory \<Rightarrow> directory" where
  "sweep now [] dir = dir"
| "sweep now (f # fs) dir =
     (case map_of dir f of
        Some e \<Rightarrow>
          if is_file e \<and> now - mtime e > 1800
          then (case os_remove f dir of
                  Returns dir' \<Rightarrow> sweep now fs dir'
                | Raises x \<Rightarrow> sweep now fs dir)
          else sweep now fs dir
      | None \<Rightarrow> sweep now fs dir)"

definition cleanup_old_files :: "real \<Rightarrow> directory option \<Rightarrow> directory option" where
  "cleanup_old_files now static_folder =
     (case static_folder of
        None \<Rightarrow> None
      | Some dir \<Rightarrow> Some (sweep now (map fst dir) dir))"

text \<open>
  The URL map of the application, in the order in which the rules are registered.
  \<^verbatim>\<open>Flask(__name__)\<close> (app.py, line 32) registers the rule of the framework's own
  static folder, \<^verbatim>\<open>/static/<path:filename>\<close> with the endpoint \<open>static\<close>, before
  any route of app.py; the routes of app.py follow as they stand in the file, among
  them the same pattern again for \<^verbatim>\<open>serve_static_files\<close> (app.py, line 400).  A
  \<^verbatim>\<open>path\<close> segment is any non-empty text that does not start with a slash.  A
  route without \<^verbatim>\<open>methods\<close> answers GET, HEAD and OPTIONS, a POST route POST
  and OPTIONS.
\<close>

datatype rule = Exact string | Path_under string

definition rule_matches :: "rule \<Rightarrow> string \<Rightarrow> bool" where
  "rule_matches r path =
     (case r of
        Exact p \<Rightarrow> path = p
      | Path_under pre \<Rightarrow>
          prefix pre path
          \<and> (case drop (length pre) path of [] \<Rightarrow> False | c # cs \<Rightarrow> c \<noteq> CHR ''/''))"

definition get_methods :: "string list" where
  "get_methods = [''GET'', ''HEAD'', ''OPTIONS'']"

definition post_methods :: "string list" where
  "post_methods = [''POST'', ''OPTIONS'']"

definition url_map :: "(rule \<times> string list \<times> string) list" where
  "url_map =
     [(Path_under ''/static/'', get_methods, ''static''),
      (Exact ''/'', get_methods, ''index''),
      (Exact ''/login-page'', get_methods, ''login_page''),
      (Exact ''/login'', post_methods, ''login''),
      (Exact ''/register'', post_methods, ''register''),
      (Exact ''/reset-password'', post_methods, ''reset_password''),
      (Exact ''/logout'', post_methods, ''logout''),
      (Exact ''/check-auth'', get_methods, ''check_auth''),
      (Exact ''/admin'', get_methods, ''admin_dashboard''),
      (Exact ''/api/stats'', get_methods, ''get_stats''),
      (Exact ''/api/users'', get_methods, ''get_users_list''),
      (Exact ''/api/activity-logs'', get_methods, ''get_activity_logs_json''),
      (Exact ''/download-report'', get_methods, ''download_report''),
      (Path_under ''/static/'', get_methods, ''serve_static_files''),
      (Exact ''/chat'', post_methods, ''chat''),
      (Exact ''/clear-chat'', post_methods, ''clear_chat''),
      (Exact ''/generate-minutes'', post_methods, ''generate_minutes''),
      (Exact ''/generate-email'', post_methods, ''generate_email''),
      (Exact ''/review-code'', post_methods, ''review_code''),
      (Exact ''/translate'', post_methods, ''translate''),
      (Exact ''/generate-quiz'', post_methods, ''generate_quiz''),
      (Exact ''/make-ppt'', post_methods, ''make_ppt''),
      (Exact ''/text-to-audio'', post_methods, ''text_to_audio''),
      (Exact ''/audio-to-text'', post_methods, ''audio_to_text''),
      (Exact ''/convert-file'', post_methods, ''convert_file''),
      (Exact ''/compress-image'', post_methods, ''compress_image''),
      (Exact ''/text-to-pdf'', post_methods, ''text_to_pdf''),
      (Exact ''/video-to-audio'', post_methods, ''video_to_audio'')]"

text \<open>
  \<^verbatim>\<open>request.endpoint\<close>: the endpoint of the first rule that matches the path and
  allows the method; \<open>None\<close> when there is none (the request is answered 404 or 405,
  after the functions registered with \<^verbatim>\<open>before_request\<close> have run).
\<close>

fun first_match :: "(rule \<times> string list \<times> string) list \<Rightarrow> string \<Rightarrow> string \<Rightarrow> string option" where
  "first_match [] method path = None"
| "first_match ((r, methods, e) # rules) method path =
     (if rule_matches r path \<and> method \<in> set methods then Some e
      else first_match rules method path)"

definition request_endpoint :: "string \<Rightarrow> string \<Rightarrow> string option" where
  "request_endpoint method path = first_match url_map method path"

text \<open>
  \<^verbatim>\<open>before_request_cleanup\<close> (app.py, line 141), for a request with the given
  method and path.  The sweep runs in a thread of its own; here it runs to its end
  when the request comes in.
\<close>

definition before_request_cleanup ::
  "string \<Rightarrow> string \<Rightarrow> real \<Rightarrow> directory option \<Rightarrow> directory option" where
  "before_request_cleanup method path now static_folder =
     (if request_endpoint method path \<noteq> Some ''serve_static_files''
      then cleanup_old_files now static_folder
      else static_folder)"

section \<open>The tools\<close>

text \<open>
  What one request meets outside the program: the clock, the completion service (given
  the messages, it raises or returns the content of the first choice), the identifiers
  that \<^verbatim>\<open>uuid.uuid4()\<close> draws, in their order, and what each library answers when
  the handler calls it (gTTS, the speech recogniser, PIL, pisa, MoviePy, python-pptx).
  The files the libraries write are not part of the state of the handlers.
\<close>

type_synonym completion_api = "message list \<Rightarrow> string outcome"

record externals =
  clock :: nat
  groq :: completion_api
  uuid_hex :: "nat \<Rightarrow> string"
  gtts :: "unit outcome"
  recognize_google :: "string outcome"
  pil :: "unit outcome"
  pisa :: "unit outcome"
  moviepy :: "unit outcome"
  pptx :: "string \<Rightarrow> unit outcome"

text \<open>
  The request: its form fields, and whether it carries the uploads named
  \<^verbatim>\<open>file\<close> and \<^verbatim>\<open>template_file\<close>.
\<close>

record request =
  form :: "string \<Rightarrow> string option"
  has_file :: bool
  has_template :: bool

definition form_get :: "request \<Rightarrow> string \<Rightarrow> string \<Rightarrow> string" where
  "form_get req k dflt = (case form req k of None \<Rightarrow> dflt | Some v \<Rightarrow> v)"

definition file_url :: "string \<Rightarrow> response" where
  "file_url fname = ok_json [(''success'', JBool True), (''file_url'', JStr (''/static/'' @ fname))]"

text \<open>
  \<^verbatim>\<open>get_groq_response\<close> (app.py, line 152): a missing key and an exception of the
  call both come back as a text, in the place of the completion.
\<close>

definition prompt_messages :: "string \<Rightarrow> string option \<Rightarrow> message list" where
  "prompt_messages system_prompt user_prompt =
     [\<lparr>role = ''system'', content = Some system_prompt\<rparr>,
      \<lparr>role = ''user'', content = user_prompt\<rparr>]"

definition get_groq_response :: "config \<Rightarrow> completion_api \<Rightarrow> string \<Rightarrow> string option \<Rightarrow> string" where
  "get_groq_response cfg api system_prompt user_prompt =
     (if (case API_KEY cfg of None \<Rightarrow> True | Some k \<Rightarrow> k = [])
      then ''Error: GROQ_API_KEY not found in .env file.''
      else case api (prompt_messages system_prompt user_prompt) of
             Returns c \<Rightarrow> c
           | Raises e \<Rightarrow> ''AI Service Error: '' @ e)"

text \<open>
  \<^verbatim>\<open>chat\<close> (app.py, line 408).  \<open>history_of\<close> is
  \<^verbatim>\<open>session.get('chat_history', [])\<close>, \<open>chat_messages\<close> the list that is sent:
  the system message, the history and the new question.
\<close>

definition history_of :: "session \<Rightarrow> message list" where
  "history_of sess = (case chat_history sess of None \<Rightarrow> [] | Some h \<Rightarrow> h)"

definition chat_messages :: "session \<Rightarrow> string \<Rightarrow> message list" where
  "chat_messages sess msg =
     [\<lparr>role = ''system'', content = Some ''You are a helpful AI assistant.''\<rparr>]
     @ history_of sess @ [\<lparr>role = ''user'', content = Some msg\<rparr>]"

definition chat :: "externals \<Rightarrow> request \<Rightarrow> session \<Rightarrow> state \<Rightarrow> response \<times> session \<times> state" where
  "chat ext req sess st =
     (let st1 = log_activity (clock ext) ''chat_msgs'' ''User sent a chat message'' sess st;
          msg = form_get req ''message'' [];
          history = history_of sess
      in case groq ext (chat_messages sess msg) of
           Raises e \<Rightarrow> (failure e 500, sess, st1)
         | Returns ai_reply \<Rightarrow>
             (let appended = history @ [\<lparr>role = ''user'', content = Some msg\<rparr>,
                                        \<lparr>role = ''assistant'', content = Some ai_reply\<rparr>];
                  kept = (if length appended > 6 then drop (length appended - 6) appended
                          else appended)
              in (ok_json [(''success'', JBool True), (''response'', JStr ai_reply)],
                  sess\<lparr>chat_history := Some kept\<rparr>, st1)))"

text \<open>The four text endpoints (app.py, lines 431 to 459).\<close>

definition generate_minutes :: "config \<Rightarrow> externals \<Rightarrow> request \<Rightarrow> session \<Rightarrow> state \<Rightarrow> response \<times> state" where
  "generate_minutes cfg ext req sess st =
     (let st1 = log_activity (clock ext) ''text_gen'' ''Generated Meeting Minutes'' sess st;
          notes = form_get req ''notes'' [];
          res = get_groq_response cfg (groq ext) ''Convert notes to minutes.'' (Some notes)
      in (ok_json [(''success'', JBool True), (''minutes'', JStr res)], st1))"

definition generate_email :: "config \<Rightarrow> externals \<Rightarrow> request \<Rightarrow> session \<Rightarrow> state \<Rightarrow> response \<times> state" where
  "generate_email cfg ext req sess st =
     (let st1 = log_activity (clock ext) ''text_gen'' ''Generated Email Draft'' sess st;
          recipient = form req ''recipient'';
          topic = form req ''topic'';
          res = get_groq_response cfg (groq ext) ''Write a professional email.''
                  (Some (''To: '' @ fstr recipient @ '' Topic: '' @ fstr topic))
      in (ok_json [(''success'', JBool True), (''email_content'', JStr res)], st1))"

definition review_code :: "config \<Rightarrow> externals \<Rightarrow> request \<Rightarrow> session \<Rightarrow> state \<Rightarrow> response \<times> state" where
  "review_code cfg ext req sess st =
     (let st1 = log_activity (clock ext) ''code_review'' ''Performed Code Review'' sess st;
          code = form_get req ''code'' [];
          res = get_groq_response cfg (groq ext) ''Review code.'' (Some code)
      in (ok_json [(''success'', JBool True), (''review'', JStr res)], st1))"

definition translate :: "config \<Rightarrow> externals \<Rightarrow> request \<Rightarrow> session \<Rightarrow> state \<Rightarrow> response \<times> state" where
  "translate cfg ext req sess st =
     (let target = form req ''target_language'';
          st1 = log_activity (clock ext) ''text_gen'' (''Translated text to '' @ fstr target) sess st;
          text = form req ''text'';
          res = get_groq_response cfg (groq ext) (''Translate to '' @ fstr target @ ''.'') text
      in (ok_json [(''success'', JBool True), (''translation'', JStr res)], st1))"

text \<open>
  \<^verbatim>\<open>generate_quiz\<close> (app.py, line 461).  The page handed to pisa is built from the
  cleaned text; what pisa answers is \<open>pisa ext\<close>.
\<close>

definition quiz_prompt :: "string \<Rightarrow> string \<Rightarrow> string" where
  "quiz_prompt count topic =
     ''Create a '' @ count @ ''-question Multiple Choice Quiz about '' @ [CHR 0x27] @ topic
     @ [CHR 0x27] @ ''.\<newline>''
     @ ''Output ONLY raw HTML content (no ```html fences).\<newline>''
     @ ''Use this EXACT structure for every question:\<newline>''
     @ ''<div class='question-box'>\<newline>''
     @ ''  <h3 class='q-title'>1. Question text here?</h3>\<newline>''
     @ ''  <ul class='options-list'>\<newline>''
     @ ''    <li>A) Option 1</li>\<newline>''
     @ ''    <li>B) Option 2</li>\<newline>''
     @ ''    <li>C) Option 3</li>\<newline>''
     @ ''    <li>D) Option 4</li>\<newline>''
     @ ''  </ul>\<newline>''
     @ ''</div>\<newline>''
     @ ''At the very end, add: <h4>Answer Key</h4>\<newline>''
     @ ''<table class='answer-key'>...</table>''"

definition generate_quiz :: "config \<Rightarrow> externals \<Rightarrow> request \<Rightarrow> session \<Rightarrow> state \<Rightarrow> response \<times> state" where
  "generate_quiz cfg ext req sess st =
     (let st1 = log_activity (clock ext) ''quiz_gen'' ''Generated a Quiz'' sess st;
          topic = form_get req ''topic'' ''General Knowledge'';
          count = form_get req ''count'' ''5'';
          raw_res = get_groq_response cfg (groq ext) ''You are a strict HTML quiz generator.''
                      (Some (quiz_prompt count topic))
      in if raw_res = []
         then (ok_json [(''success'', JBool False), (''error'', JStr ''AI Failed'')], st1)
         else
           (let clean_html = clean_ai_text (Some raw_res);
                fname = ''quiz_'' @ take 8 (uuid_hex ext 0) @ ''.pdf''
            in case pisa ext of
                 Returns u \<Rightarrow>
                   (ok_json [(''success'', JBool True), (''quiz'', JStr clean_html),
                             (''file_url'', JStr (''/static/'' @ fname))], st1)
               | Raises e \<Rightarrow> (failure e 500, st1)))"

text \<open>
  \<^verbatim>\<open>make_ppt\<close> (app.py, line 526).  The slides are built inside python-pptx from the
  cleaned text; \<open>pptx ext\<close> is what building and saving the deck answers.  The handler
  has no \<^verbatim>\<open>try\<close> around it, so an exception becomes the framework's error page.
  A template, when uploaded, is saved under an identifier of its own first.
\<close>

definition ppt_instruction :: string where
  "ppt_instruction =
     ''You are a presentation generator. ''
     @ ''Convert the user's input into a slide deck structure. ''
     @ ''Strictly follow this format for every slide:\<newline>''
     @ ''SLIDE: [Title of the Slide]\<newline>''
     @ ''POINT: [Bullet point content]\<newline>''
     @ ''POINT: [Bullet point content]\<newline>''
     @ ''Do not output any conversational text, only the slide structure.''"

definition make_ppt :: "config \<Rightarrow> externals \<Rightarrow> request \<Rightarrow> session \<Rightarrow> state \<Rightarrow> response \<times> state" where
  "make_ppt cfg ext req sess st =
     (let topic = form_get req ''topic'' ''Presentation'';
          source_text = form_get req ''source_text'' [];
          st1 = log_activity (clock ext) ''text_gen'' (''Generated PPT: '' @ topic) sess st;
          content_input = ''TOPIC: '' @ topic @ ''\<newline>DETAILS: '' @ source_text;
          ai_text = get_groq_response cfg (groq ext) ppt_instruction (Some content_input);
          clean_response = clean_ai_text (Some ai_text);
          fname = ''presentation_'' @ take 8 (uuid_hex ext (if has_template req then 1 else 0))
                  @ ''.pptx''
      in case pptx ext clean_response of
           Returns u \<Rightarrow> (file_url fname, st1)
         | Raises e \<Rightarrow> (\<lparr>body = Framework_Error, status = 500\<rparr>, st1))"

text \<open>
  The media endpoints (app.py, lines 601 to 688).  \<^verbatim>\<open>request.files['file']\<close>
  without the upload raises a key error that Flask answers with status 400.
\<close>

definition bad_request :: response where
  "bad_request = \<lparr>body = Framework_Error, status = 400\<rparr>"

definition text_to_audio :: "externals \<Rightarrow> request \<Rightarrow> session \<Rightarrow> state \<Rightarrow> response \<times> state" where
  "text_to_audio ext req sess st =
     (let st1 = log_activity (clock ext) ''audio_gen'' ''Converted Text to Speech'' sess st
      in case gtts ext of
           Returns u \<Rightarrow> (file_url (''audio_'' @ take 8 (uuid_hex ext 0) @ ''.mp3''), st1)
         | Raises e \<Rightarrow> (failure e 500, st1))"

definition audio_to_text :: "externals \<Rightarrow> request \<Rightarrow> session \<Rightarrow> state \<Rightarrow> response \<times> state" where
  "audio_to_text ext req sess st =
     (let st1 = log_activity (clock ext) ''transcribe'' ''Transcribed Audio File'' sess st
      in if \<not> has_file req then (bad_request, st1)
         else case recognize_google ext of
                Returns txt \<Rightarrow> (ok_json [(''success'', JBool True), (''text'', JStr txt)], st1)
              | Raises e \<Rightarrow> (failure e 500, st1))"

definition convert_file :: "externals \<Rightarrow> request \<Rightarrow> session \<Rightarrow> state \<Rightarrow> response \<times> state" where
  "convert_file ext req sess st =
     (let fmt = upper (form_get req ''format'' ''PNG'');
          st1 = log_activity (clock ext) ''file_conv'' (''Converted file to '' @ fmt) sess st
      in if \<not> has_file req then (bad_request, st1)
         else case pil ext of
                Returns u \<Rightarrow>
                  (file_url (''conv_'' @ take 8 (uuid_hex ext 0) @ ''.'' @ lower fmt), st1)
              | Raises e \<Rightarrow> (failure e 500, st1))"

definition compress_image :: "externals \<Rightarrow> request \<Rightarrow> session \<Rightarrow> state \<Rightarrow> response \<times> state" where
  "compress_image ext req sess st =
     (let st1 = log_activity (clock ext) ''compression'' ''Compressed Image'' sess st
      in if \<not> has_file req then (bad_request, st1)
         else case pil ext of
                Returns u \<Rightarrow> (file_url (''comp_'' @ take 8 (uuid_hex ext 0) @ ''.jpg''), st1)
              | Raises e \<Rightarrow> (failure e 500, st1))"

definition text_to_pdf :: "externals \<Rightarrow> request \<Rightarrow> session \<Rightarrow> state \<Rightarrow> response \<times> state" where
  "text_to_pdf ext req sess st =
     (let st1 = log_activity (clock ext) ''pdf_gen'' ''Generated PDF Document'' sess st
      in case pisa ext of
           Returns u \<Rightarrow> (file_url (''doc_'' @ take 8 (uuid_hex ext 0) @ ''.pdf''), st1)
         | Raises e \<Rightarrow> (failure e 500, st1))"

definition video_to_audio :: "externals \<Rightarrow> request \<Rightarrow> session \<Rightarrow> state \<Rightarrow> response \<times> state" where
  "video_to_audio ext req sess st =
     (let st1 = log_activity (clock ext) ''vid_audio'' ''Converted Video to Audio'' sess st
      in if \<not> has_file req then (failure ''No file'' 400, st1)
         else case moviepy ext of
                Returns u \<Rightarrow> (file_url (''extracted_'' @ take 8 (uuid_hex ext 1) @ ''.mp3''), st1)
              | Raises e \<Rightarrow> (failure e 500, st1))"

text \<open>
  The routes of the tools, and the handler each route calls.  Only \<^verbatim>\<open>chat\<close> writes
  to the session.  \<open>feature_name\<close> is the tag under which a route counts its calls.
\<close>

datatype endpoint =
    Chat | Generate_minutes | Generate_email | Review_code | Translate | Generate_quiz
  | Make_ppt | Text_to_audio | Audio_to_text | Convert_file | Compress_image | Text_to_pdf
  | Video_to_audio

fun feature_name :: "endpoint \<Rightarrow> string" where
  "feature_name Chat = ''chat_msgs''"
| "feature_name Generate_minutes = ''text_gen''"
| "feature_name Generate_email = ''text_gen''"
| "feature_name Review_code = ''code_review''"
| "feature_name Translate = ''text_gen''"
| "feature_name Generate_quiz = ''quiz_gen''"
| "feature_name Make_ppt = ''text_gen''"
| "feature_name Text_to_audio = ''audio_gen''"
| "feature_name Audio_to_text = ''transcribe''"
| "feature_name Convert_file = ''file_conv''"
| "feature_name Compress_image = ''compression''"
| "feature_name Text_to_pdf = ''pdf_gen''"
| "feature_name Video_to_audio = ''vid_audio''"

definition keep_session :: "session \<Rightarrow> response \<times> state \<Rightarrow> response \<times> session \<times> state" where
  "keep_session sess rs = (fst rs, sess, snd rs)"

fun dispatch ::
  "endpoint \<Rightarrow> config \<Rightarrow> externals \<Rightarrow> request \<Rightarrow> session \<Rightarrow> state \<Rightarrow> response \<times> session \<times> state" where
  "dispatch Chat cfg ext req sess st = chat ext req sess st"
| "dispatch Generate_minutes cfg ext req sess st = keep_session sess (generate_minutes cfg ext req sess st)"
| "dispatch Generate_email cfg ext req sess st = keep_session sess (generate_email cfg ext req sess st)"
| "dispatch Review_code cfg ext req sess st = keep_session sess (review_code cfg ext req sess st)"
| "dispatch Translate cfg ext req sess st = keep_session sess (translate cfg ext req sess st)"
| "dispatch Generate_quiz cfg ext req sess st = keep_session sess (generate_quiz cfg ext req sess st)"
| "dispatch Make_ppt cfg ext req sess st = keep_session sess (make_ppt cfg ext req sess st)"
| "dispatch Text_to_audio cfg ext req sess st = keep_session sess (text_to_audio ext req sess st)"
| "dispatch Audio_to_text cfg ext req sess st = keep_session sess (audio_to_text ext req sess st)"
| "dispatch Convert_file cfg ext req sess st = keep_session sess (convert_file ext req sess st)"
| "dispatch Compress_image cfg ext req sess st = keep_session sess (compress_image ext req sess st)"
| "dispatch Text_to_pdf cfg ext req sess st = keep_session sess (text_to_pdf ext req sess st)"
| "dispatch Video_to_audio cfg ext req sess st = keep_session sess (video_to_audio ext req sess st)"

definition succeeded :: "response \<Rightarrow> bool" where
  "succeeded r = (json_field ''success'' r = Some (JBool True))"

section \<open>Sample values\<close>

text \<open>
  Concrete inputs on which the theorems below are run: a configuration with a key, a
  guest and an admin session, a state with no table and one with the user \<open>alice\<close>,
  an environment in which every external call returns, one in which every call
  raises, and one in which the completion service raises on one prompt only.
\<close>

definition cfg0 :: config where
  "cfg0 = \<lparr>API_KEY = Some ''gsk'', ADMIN_USER = ''admin'', ADMIN_PASS = ''admin123''\<rparr>"

definition guest :: session where
  "guest = \<lparr>is_admin = None, user_name = None, chat_history = None\<rparr>"

definition admin0 :: session where
  "admin0 = \<lparr>is_admin = Some True, user_name = Some ''Administrator'', chat_history = None\<rparr>"

definition st0 :: state where
  "st0 = \<lparr>global_stats = initial_global_stats, db = None\<rparr>"

definition alice :: user where
  "alice = \<lparr>id_user = 1, username = ''alice'', password_hash = ''hash:wonderland''\<rparr>"

definition st_alice :: state where
  "st_alice = \<lparr>global_stats = initial_global_stats, db = Some \<lparr>users = [alice], logs = []\<rparr>\<rparr>"

definition check0 :: "string \<Rightarrow> string \<Rightarrow> bool" where
  "check0 pwhash password = (pwhash = ''hash:'' @ password)"

definition req0 :: request where
  "req0 = \<lparr>form = (\<lambda>k. if k = ''message'' then Some ''hello'' else None),
          has_file = True, has_template = False\<rparr>"

definition ext_ok :: externals where
  "ext_ok = \<lparr>clock = 7, groq = (\<lambda>ms. Returns ''fine''), uuid_hex = (\<lambda>k. ''0123456789abcdef''),
             gtts = Returns (), recognize_google = Returns ''hello'', pil = Returns (),
             pisa = Returns (), moviepy = Returns (), pptx = (\<lambda>t. Returns ())\<rparr>"

definition ext_down :: externals where
  "ext_down = \<lparr>clock = 7, groq = (\<lambda>ms. Raises ''boom''), uuid_hex = (\<lambda>k. ''0123456789abcdef''),
               gtts = Raises ''boom'', recognize_google = Raises ''boom'', pil = Raises ''boom'',
               pisa = Raises ''boom'', moviepy = Raises ''boom'', pptx = (\<lambda>t. Raises ''boom'')\<rparr>"

definition ext_flaky :: externals where
  "ext_flaky = ext_ok\<lparr>groq := (\<lambda>ms. case ms of
                 [] \<Rightarrow> Returns ''fine''
               | m # rest \<Rightarrow> if content m = Some ''Convert notes to minutes.''
                             then Raises ''boom'' else Returns ''fine'')\<rparr>"

definition six_messages :: "message list" where
  "six_messages = map (\<lambda>t. \<lparr>role = ''user'', content = Some t\<rparr>)
                     [''m1'', ''m2'', ''m3'', ''m4'', ''m5'', ''m6'']"

definition stale_locked :: directory where
  "stale_locked = [(''audio_1.mp3'', \<lparr>is_file = True, mtime = 0, removable = False\<rparr>)]"

definition stale_and_fresh :: directory where
  "stale_and_fresh =
     [(''audio_1.mp3'', \<lparr>is_file = True, mtime = 0, removable = True\<rparr>),
      (''doc_2.pdf'', \<lparr>is_file = True, mtime = 3200, removable = True\<rparr>),
      (''cache'', \<lparr>is_file = False, mtime = 0, removable = True\<rparr>)]"

section \<open>Removing code fences\<close>

lemma replace_from_absent: "\<not> sublist old s \<Longrightarrow> replace_from old new s = s"
  by (induction s) (auto simp: sublist_Cons_right)

lemma replace_absent: "old \<noteq> [] \<Longrightarrow> \<not> sublist old s \<Longrightarrow> replace s old new = s"
  by (simp add: replace_def replace_from_absent)

text \<open>
  Removing a pattern of three equal characters cannot bring a prefix of two of them to
  the front: a run is eaten three characters at a time from its left end.
\<close>

lemma run2_kept:
  "\<not> prefix [c, c] s \<Longrightarrow> \<not> prefix [c, c] (replace_from [c, c, c] [] s)"
  by (cases s; cases "tl s") auto

lemma replace_from_fence_free: "\<not> sublist [c, c, c] (replace_from [c, c, c] [] s)"
proof (induction s rule: length_induct)
  case (1 s)
  show ?case
  proof (cases s)
    case Nil
    then show ?thesis by simp
  next
    case (Cons d ds)
    show ?thesis
    proof (cases "prefix [c, c, c] s")
      case True
      have "length (drop 3 s) < length s" using Cons by simp
      then have "\<not> sublist [c, c, c] (replace_from [c, c, c] [] (drop 3 s))"
        using 1 by blast
      moreover have "replace_from [c, c, c] [] s = replace_from [c, c, c] [] (drop 3 s)"
        using True Cons by (auto simp: eval_nat_numeral)
      ultimately show ?thesis by simp
    next
      case False
      have tl_free: "\<not> sublist [c, c, c] (replace_from [c, c, c] [] ds)"
        using 1 Cons by simp
      have "\<not> prefix [c, c] ds \<or> d \<noteq> c" using False Cons by auto
      then have "\<not> prefix [c, c, c] (d # replace_from [c, c, c] [] ds)"
        using run2_kept [of c ds] by auto
      moreover have "replace_from [c, c, c] [] s = d # replace_from [c, c, c] [] ds"
        using False Cons by auto
      ultimately show ?thesis using tl_free by (simp add: sublist_Cons_right)
    qed
  qed
qed

subsection \<open>Stripping\<close>

lemma strip_Nil: "strip [] = []"
  by (simp add: strip_def)

lemma sublist_strip: "sublist (strip s) s"
proof -
  have "suffix (dropWhile isspace s) s" by (rule suffix_dropWhile)
  moreover have "prefix (strip s) (dropWhile isspace s)"
    unfolding strip_def by (metis suffix_dropWhile suffix_to_prefix rev_rev_ident)
  ultimately show ?thesis
    by (meson prefix_imp_sublist suffix_imp_sublist sublist_order.order_trans)
qed

lemma dropWhile_rev_strip: "dropWhile isspace (rev (strip s)) = rev (strip s)"
  unfolding strip_def by simp

lemma strip_hd: "dropWhile isspace (strip s) = strip s"
proof (cases "dropWhile isspace s")
  case Nil
  have "strip s = []" unfolding strip_def Nil by simp
  then show ?thesis by simp
next
  case (Cons a as)
  then have na: "\<not> isspace a" by (metis hd_dropWhile list.sel(1) list.distinct(1))
  have "prefix (strip s) (a # as)"
    unfolding strip_def Cons [symmetric] by (metis suffix_dropWhile suffix_to_prefix rev_rev_ident)
  moreover have "strip s \<noteq> []"
    unfolding strip_def Cons using na by (simp add: dropWhile_append3)
  ultimately obtain r where "strip s = a # r" by (cases "strip s") auto
  then show ?thesis using na by simp
qed

lemma strip_strip: "strip (strip s) = strip s"
  unfolding strip_def [of "strip s"] by (simp add: strip_hd dropWhile_rev_strip)

subsection \<open>The cleaned text\<close>

lemma clean_ai_text_fence_free: "\<not> sublist ''```'' (clean_ai_text t)"
proof (cases t)
  case None
  then show ?thesis by (simp add: clean_ai_text_def)
next
  case (Some s)
  show ?thesis
  proof (cases "s = []")
    case True
    with Some show ?thesis by (simp add: clean_ai_text_def)
  next
    case False
    let ?r = "replace (replace (replace s ''```html'' []) ''```json'' []) ''```'' []"
    have "\<not> sublist ''```'' ?r"
      unfolding replace_def [of _ "''```''"] using replace_from_fence_free [of "CHR 0x60"] by simp
    then have "\<not> sublist ''```'' (strip ?r)"
      using sublist_strip sublist_order.order_trans by blast
    then show ?thesis using Some False by (simp add: clean_ai_text_def)
  qed
qed

lemma clean_ai_text_stripped: "strip (clean_ai_text t) = clean_ai_text t"
  by (cases t) (simp_all add: clean_ai_text_def strip_strip strip_Nil)

lemma clean_ai_text_fixed:
  assumes free: "\<not> sublist ''```'' s" and stripped: "strip s = s"
  shows "clean_ai_text (Some s) = s"
proof -
  have "sublist ''```'' ''```html''" "sublist ''```'' ''```json''"
    by (simp_all add: sublist_Cons_right)
  then have h: "\<not> sublist ''```html'' s" and j: "\<not> sublist ''```json'' s"
    using free sublist_order.order_trans by blast+
  have "replace (replace (replace s ''```html'' []) ''```json'' []) ''```'' [] = s"
    using free h j by (simp add: replace_absent)
  then show ?thesis
    by (simp add: clean_ai_text_def stripped)
qed

text \<open>
  C8.  \<^verbatim>\<open>clean_ai_text\<close> is idempotent: cleaning a cleaned text returns it unchanged,
  for every argument (a string or \<open>None\<close>); the cleaned text holds no code-fence
  marker (three backticks), hence none of the three removed substrings, and stripping
  it changes nothing.
\<close>

theorem clean_ai_text_idempotent:
  "clean_ai_text (Some (clean_ai_text t)) = clean_ai_text t
   \<and> \<not> sublist ''```'' (clean_ai_text t)
   \<and> strip (clean_ai_text t) = clean_ai_text t"
  using clean_ai_text_fixed [OF clean_ai_text_fence_free clean_ai_text_stripped]
    clean_ai_text_fence_free clean_ai_text_stripped by blast

section \<open>The usage counters\<close>

lemma log_activity_stats:
  "global_stats (log_activity now tag detail sess st) =
     (if tag \<in> fst ` set (global_stats st)
      then AList.map_entry tag (\<lambda>n. n + 1) (global_stats st) else global_stats st)"
  by (simp add: log_activity_def Let_def split: option.splits)

text \<open>
  Every tool handler logs once, under the tag of its route, and nothing else in it
  writes to the counters.
\<close>

lemma dispatch_stats:
  "\<exists>now detail. snd (snd (dispatch e cfg ext req sess st)) = log_activity now (feature_name e) detail sess st"
  by (cases e)
     (auto simp: chat_def generate_minutes_def generate_email_def review_code_def translate_def
        generate_quiz_def make_ppt_def text_to_audio_def audio_to_text_def convert_file_def
        compress_image_def text_to_pdf_def video_to_audio_def keep_session_def Let_def
        split: outcome.splits)

lemma feature_name_counted: "feature_name e \<in> set (map fst initial_global_stats)"
  by (cases e) (simp_all add: initial_global_stats_def)

lemma map_fst_map_entry: "map fst (AList.map_entry k f xs) = map fst xs"
  by (induction xs) auto

lemma log_activity_counts:
  assumes "tag \<in> set (map fst (global_stats st))"
  shows "(\<exists>n. map_of (global_stats st) tag = Some n
              \<and> map_of (global_stats (log_activity now tag detail sess st)) tag = Some (n + 1))
         \<and> (\<forall>k. k \<noteq> tag \<longrightarrow>
               map_of (global_stats (log_activity now tag detail sess st)) k
               = map_of (global_stats st) k)
         \<and> map fst (global_stats (log_activity now tag detail sess st)) = map fst (global_stats st)"
proof -
  obtain n where n: "map_of (global_stats st) tag = Some n"
    using assms by (metis (no_types) image_set map_of_eq_None_iff not_Some_eq set_map)
  show ?thesis
    using assms n by (simp add: log_activity_stats map_of_map_entry map_fst_map_entry)
qed

lemma dispatch_counts:
  assumes "map fst (global_stats st) = map fst initial_global_stats"
  shows "(\<exists>n. map_of (global_stats st) (feature_name e) = Some n
              \<and> map_of (global_stats (snd (snd (dispatch e cfg ext req sess st)))) (feature_name e) = Some (n + 1))
         \<and> (\<forall>k. k \<noteq> feature_name e \<longrightarrow>
               map_of (global_stats (snd (snd (dispatch e cfg ext req sess st)))) k
               = map_of (global_stats st) k)
         \<and> map fst (global_stats (snd (snd (dispatch e cfg ext req sess st)))) = map fst (global_stats st)"
proof -
  obtain now detail where
    "snd (snd (dispatch e cfg ext req sess st)) = log_activity now (feature_name e) detail sess st"
    using dispatch_stats by blast
  moreover have "feature_name e \<in> set (map fst (global_stats st))"
    using assms feature_name_counted by simp
  ultimately show ?thesis
    using log_activity_counts by simp
qed

text \<open>
  C3.  In a state whose counter dictionary has the keys it was created with, a
  successful call to a tool endpoint increments the counter keyed by the tag of the
  endpoint by exactly one and changes no other counter; the keys stay as they are.
\<close>

theorem stats_counter_incremented_once:
  assumes "dispatch e cfg ext req sess st = (r, sess', st')"
    and "succeeded r"
    and "map fst (global_stats st) = map fst initial_global_stats"
  shows "(\<exists>n. map_of (global_stats st) (feature_name e) = Some n
              \<and> map_of (global_stats st') (feature_name e) = Some (n + 1))
         \<and> (\<forall>k. k \<noteq> feature_name e \<longrightarrow> map_of (global_stats st') k = map_of (global_stats st) k)
         \<and> map fst (global_stats st') = map fst (global_stats st)"
  using dispatch_counts [OF assms(3), of e cfg ext req sess] assms(1) by simp

text \<open>
  A run of C3: a code review on the initial state takes \<open>code_review\<close> from 0 to 1
  and leaves \<open>text_gen\<close> at 0.
\<close>

theorem stats_counter_incremented_once_witness:
  "succeeded (fst (dispatch Review_code cfg0 ext_ok req0 guest st0))
   \<and> map fst (global_stats st0) = map fst initial_global_stats
   \<and> map_of (global_stats st0) ''code_review'' = Some 0
   \<and> map_of (global_stats (snd (snd (dispatch Review_code cfg0 ext_ok req0 guest st0)))) ''code_review'' = Some 1
   \<and> map_of (global_stats (snd (snd (dispatch Review_code cfg0 ext_ok req0 guest st0)))) ''text_gen'' = Some 0"
proof -
  let ?out = "dispatch Review_code cfg0 ext_ok req0 guest st0"
  have run: "?out = (fst ?out, fst (snd ?out), snd (snd ?out))" by simp
  have ok: "succeeded (fst ?out)"
    by (simp add: review_code_def keep_session_def succeeded_def json_field_def ok_json_def Let_def)
  have keys: "map fst (global_stats st0) = map fst initial_global_stats" by (simp add: st0_def)
  have start: "map_of (global_stats st0) ''code_review'' = Some 0"
    by (simp add: st0_def initial_global_stats_def)
  have other: "map_of (global_stats st0) ''text_gen'' = Some 0"
    by (simp add: st0_def initial_global_stats_def)
  show ?thesis
    using stats_counter_incremented_once [OF run ok keys] ok keys start other by simp
qed

section \<open>The chat history\<close>

text \<open>
  C5.  After a successful call to \<^verbatim>\<open>/chat\<close> the history stored in the session
  has at most 6 messages, and they are the most recent ones: the stored list is the
  end of the old history followed by the new question and answer, of length 6 or of
  the whole length when that is smaller, so the oldest messages are the ones dropped.
\<close>

theorem chat_history_capped:
  assumes "chat ext req sess st = (r, sess', st')" and "succeeded r"
  shows "\<exists>reply kept.
           groq ext ([\<lparr>role = ''system'', content = Some ''You are a helpful AI assistant.''\<rparr>]
                     @ history_of sess
                     @ [\<lparr>role = ''user'', content = Some (form_get req ''message'' [])\<rparr>])
             = Returns reply
           \<and> chat_history sess' = Some kept
           \<and> length kept \<le> 6
           \<and> length kept = min 6 (length (history_of sess) + 2)
           \<and> suffix kept (history_of sess
                  @ [\<lparr>role = ''user'', content = Some (form_get req ''message'' [])\<rparr>,
                     \<lparr>role = ''assistant'', content = Some reply\<rparr>])"
proof (cases "groq ext ([\<lparr>role = ''system'', content = Some ''You are a helpful AI assistant.''\<rparr>]
                     @ history_of sess
                     @ [\<lparr>role = ''user'', content = Some (form_get req ''message'' [])\<rparr>])")
  case (Raises e)
  then have "r = failure e 500"
    using assms(1) by (simp add: chat_def chat_messages_def history_of_def Let_def)
  then show ?thesis using assms(2) by (simp add: succeeded_def json_field_def failure_def)
next
  case (Returns reply)
  let ?all = "history_of sess
                  @ [\<lparr>role = ''user'', content = Some (form_get req ''message'' [])\<rparr>,
                     \<lparr>role = ''assistant'', content = Some reply\<rparr>]"
  let ?kept = "if length ?all > 6 then drop (length ?all - 6) ?all else ?all"
  have "chat_history sess' = Some ?kept"
    using assms(1) Returns by (auto simp: chat_def chat_messages_def history_of_def Let_def)
  moreover have "suffix ?kept ?all" by (simp add: suffix_drop)
  moreover have "length ?kept = min 6 (length (history_of sess) + 2)" by simp
  moreover have "length ?kept \<le> 6" by simp
  ultimately show ?thesis using Returns by blast
qed

text \<open>
  A run of C5: with six messages stored, a successful call keeps the last four and
  the new pair.
\<close>

theorem chat_history_capped_witness:
  "succeeded (fst (chat ext_ok req0 (guest\<lparr>chat_history := Some six_messages\<rparr>) st0))
   \<and> chat_history (fst (snd (chat ext_ok req0 (guest\<lparr>chat_history := Some six_messages\<rparr>) st0)))
       = Some (drop 2 six_messages @ [\<lparr>role = ''user'', content = Some ''hello''\<rparr>,
                                      \<lparr>role = ''assistant'', content = Some ''fine''\<rparr>])
   \<and> length (the (chat_history (fst (snd (chat ext_ok req0 (guest\<lparr>chat_history := Some six_messages\<rparr>) st0))))) = 6"
proof -
  let ?sess = "guest\<lparr>chat_history := Some six_messages\<rparr>"
  let ?out = "chat ext_ok req0 ?sess st0"
  have run: "?out = (fst ?out, fst (snd ?out), snd (snd ?out))" by simp
  have ok: "succeeded (fst ?out)"
    by (simp add: chat_def chat_messages_def ext_ok_def succeeded_def json_field_def ok_json_def Let_def)
  have hist: "chat_history (fst (snd ?out))
       = Some (drop 2 six_messages @ [\<lparr>role = ''user'', content = Some ''hello''\<rparr>,
                                      \<lparr>role = ''assistant'', content = Some ''fine''\<rparr>])"
    by (simp add: chat_def chat_messages_def ext_ok_def req0_def form_get_def history_of_def guest_def
          six_messages_def Let_def)
  show ?thesis
    using chat_history_capped [OF run ok] ok hist by (simp add: six_messages_def)
qed

section \<open>Logging in and registering\<close>

text \<open>
  C7.  A login whose password does not match (an admin-role request with other
  credentials than the configured ones, or a user-role request whose username and
  password match the hash of no stored user) is answered with status 401 and
  \<open>success\<close> false, and leaves the session as it was.
\<close>

theorem login_wrong_password:
  assumes "(json_role data = Some ''admin''
            \<and> \<not> (json_username data = Some (ADMIN_USER cfg) \<and> json_password data = Some (ADMIN_PASS cfg)))
         \<or> (json_role data \<noteq> Some ''admin''
            \<and> (\<forall>d u pw. db st = Some d \<and> u \<in> set (users d) \<and> json_username data = Some (username u)
                   \<and> json_password data = Some pw \<longrightarrow> \<not> check (password_hash u) pw))"
    and "login cfg check now data sess st = (r, sess', st')"
  shows "status r = 401 \<and> json_field ''success'' r = Some (JBool False) \<and> sess' = sess"
proof (cases "json_role data = Some ''admin''")
  case True
  then show ?thesis using assms by (auto simp: login_def failure_def json_field_def)
next
  case False
  note user_role = this
  show ?thesis
  proof (cases "db st")
    case None
    then show ?thesis using assms(2) user_role
      by (auto simp: login_def failure_def json_field_def Let_def)
  next
    case (Some d)
    show ?thesis
    proof (cases "filter_by_username (json_username data) d")
      case None
      then show ?thesis using assms(2) user_role Some
        by (auto simp: login_def failure_def json_field_def Let_def)
    next
      case found: (Some u)
      then obtain n where n: "json_username data = Some n" and u: "find (\<lambda>u. username u = n) (users d) = Some u"
        by (auto simp: filter_by_username_def split: option.splits)
      from u have mem: "u \<in> set (users d)" and name: "username u = n"
        by (auto simp: find_Some_iff)
      show ?thesis
      proof (cases "json_password data")
        case None
        then show ?thesis using assms(2) user_role Some found
          by (auto simp: login_def failure_def json_field_def Let_def)
      next
        case pw: (Some pw)
        have "\<not> check (password_hash u) pw"
          using assms(1) user_role Some mem name n pw by auto
        then show ?thesis using assms(2) user_role Some found pw
          by (auto simp: login_def failure_def json_field_def Let_def)
      qed
    qed
  qed
qed

text \<open>
  A run of C7: \<open>alice\<close> with a wrong password.
\<close>

theorem login_wrong_password_witness:
  "json_role \<lparr>json_username = Some ''alice'', json_password = Some ''guess'', json_role = None\<rparr> \<noteq> Some ''admin''
   \<and> \<not> check0 (password_hash alice) ''guess''
   \<and> login cfg0 check0 7 \<lparr>json_username = Some ''alice'', json_password = Some ''guess'', json_role = None\<rparr> guest st_alice
       = (failure ''Invalid Username or Password'' 401, guest, st_alice)
   \<and> status (fst (login cfg0 check0 7 \<lparr>json_username = Some ''alice'', json_password = Some ''guess'', json_role = None\<rparr> guest st_alice)) = 401"
proof -
  let ?data = "\<lparr>json_username = Some ''alice'', json_password = Some ''guess'', json_role = None\<rparr>"
  let ?out = "login cfg0 check0 7 ?data guest st_alice"
  have run: "?out = (fst ?out, fst (snd ?out), snd (snd ?out))" by simp
  have wrong: "(json_role ?data = Some ''admin''
            \<and> \<not> (json_username ?data = Some (ADMIN_USER cfg0) \<and> json_password ?data = Some (ADMIN_PASS cfg0)))
         \<or> (json_role ?data \<noteq> Some ''admin''
            \<and> (\<forall>d u pw. db st_alice = Some d \<and> u \<in> set (users d) \<and> json_username ?data = Some (username u)
                   \<and> json_password ?data = Some pw \<longrightarrow> \<not> check0 (password_hash u) pw))"
  proof (intro disjI2 conjI allI impI)
    show "json_role ?data \<noteq> Some ''admin''" by simp
  next
    fix d u pw
    assume a: "db st_alice = Some d \<and> u \<in> set (users d) \<and> json_username ?data = Some (username u)
                   \<and> json_password ?data = Some pw"
    then have "d = \<lparr>users = [alice], logs = []\<rparr>" by (simp add: st_alice_def)
    then have "u = alice" using a by simp
    moreover have "pw = ''guess''" using a by simp
    ultimately show "\<not> check0 (password_hash u) pw" by (simp add: alice_def check0_def)
  qed
  have out: "?out = (failure ''Invalid Username or Password'' 401, guest, st_alice)"
    by (simp add: login_def st_alice_def alice_def check0_def filter_by_username_def Let_def)
  show ?thesis
    using login_wrong_password [OF wrong run] out by (simp add: alice_def check0_def failure_def)
qed

text \<open>
  C6, as stated, fails on a request that names an existing user and has an empty
  password: the check for missing fields comes first, and the answer is status 400 with
  another message.
\<close>

theorem register_taken_counterexample:
  "register (\<lambda>p. ''hash:'' @ p) \<lparr>json_username = Some ''alice'', json_password = Some [], json_role = None\<rparr> st_alice
     = (failure ''Username and password required'' 400, st_alice)
   \<and> filter_by_username (Some ''alice'') \<lparr>users = [alice], logs = []\<rparr> = Some alice
   \<and> json_field ''error'' (fst (register (\<lambda>p. ''hash:'' @ p) \<lparr>json_username = Some ''alice'', json_password = Some [], json_role = None\<rparr> st_alice))
       \<noteq> Some (JStr ''Username already taken'')"
  by (simp add: register_def filter_by_username_def alice_def json_field_def failure_def)

text \<open>
  C6, amended.  A registration with a non-empty password whose username belongs to a
  stored user (the tables exist, so the existence check succeeds) is answered with
  status 400 and the message \<open>Username already taken\<close>, and the state, hence the
  user table, is unchanged.
\<close>

theorem register_taken:
  assumes "json_username data = Some name" and "json_password data = Some password"
    and "password \<noteq> []"
    and "db st = Some d" and "name \<in> username ` set (users d)" and "name \<noteq> []"
  shows "register gen data st = (failure ''Username already taken'' 400, st)"
proof -
  have "find (\<lambda>u. username u = name) (users d) \<noteq> None"
    using assms(5) by (auto simp: find_None_iff)
  then show ?thesis using assms by (simp add: register_def filter_by_username_def)
qed

text \<open>
  A run of the amended C6: \<open>alice\<close> registers again.
\<close>

theorem register_taken_witness:
  "''alice'' \<in> username ` set [alice]
   \<and> register (\<lambda>p. ''hash:'' @ p) \<lparr>json_username = Some ''alice'', json_password = Some ''rabbit'', json_role = None\<rparr> st_alice
     = (failure ''Username already taken'' 400, st_alice)"
  using register_taken [of "\<lparr>json_username = Some ''alice'', json_password = Some ''rabbit'', json_role = None\<rparr>"
      "''alice''" "''rabbit''" st_alice "\<lparr>users = [alice], logs = []\<rparr>" "\<lambda>p. ''hash:'' @ p"]
  by (simp add: st_alice_def alice_def)

section \<open>The admin endpoints and the session\<close>

text \<open>
  C1, as stated, fails: for a session that is no admin session \<^verbatim>\<open>/api/stats\<close>
  answers 200, and \<^verbatim>\<open>/download-report\<close> answers 401.
\<close>

theorem admin_guard_counterexample:
  "\<not> admin_session guest
   \<and> status (get_stats (Returns 12.5) (Returns 40) guest st0) = 200
   \<and> status (download_report (\<lambda>f t. ''2026'') (\<lambda>t. ''2026'') 7 guest st0) = 401"
  by (simp add: admin_session_def guest_def get_stats_def download_report_def ok_json_def)

text \<open>
  C1, amended.  For a session whose \<open>is_admin\<close> flag is not set,
  \<^verbatim>\<open>/api/users\<close> and \<^verbatim>\<open>/api/activity-logs\<close> answer with status 403 and the
  error \<open>Unauthorized\<close>; \<^verbatim>\<open>/download-report\<close> refuses with the text
  \<open>Unauthorized\<close> and a client-error status; \<^verbatim>\<open>/api/stats\<close> is not refused: it
  answers 200 with the usage counters, and with 0 for \<open>cpu\<close> and \<open>ram\<close>.
\<close>

theorem admin_guard:
  assumes "\<not> admin_session sess"
  shows "get_users_list strftime sess st
           = \<lparr>body = Json (JObj [(''error'', JStr ''Unauthorized'')]), status = 403\<rparr>
       \<and> get_activity_logs_json strftime sess st
           = \<lparr>body = Json (JObj [(''error'', JStr ''Unauthorized'')]), status = 403\<rparr>
       \<and> body (download_report strftime str_datetime clk sess st) = Text ''Unauthorized''
       \<and> 400 \<le> status (download_report strftime str_datetime clk sess st)
       \<and> status (download_report strftime str_datetime clk sess st) < 500
       \<and> get_stats cpu ram sess st
           = \<lparr>body = Json (JObj [(''cpu'', JInt 0), (''ram'', JInt 0),
                (''usage'', JObj (map (\<lambda>(k, v). (k, JInt v)) (global_stats st)))]), status = 200\<rparr>"
  using assms
  by (simp add: get_users_list_def get_activity_logs_json_def download_report_def get_stats_def
        unauthorized_def ok_json_def)

text \<open>
  A run of the amended C1 on the guest session.
\<close>

theorem admin_guard_witness:
  "\<not> admin_session guest
   \<and> status (get_users_list (\<lambda>f t. ''2026'') guest st_alice) = 403
   \<and> status (get_activity_logs_json (\<lambda>f t. ''2026'') guest st_alice) = 403
   \<and> body (download_report (\<lambda>f t. ''2026'') (\<lambda>t. ''2026'') 7 guest st_alice) = Text ''Unauthorized''
   \<and> json_field ''cpu'' (get_stats (Returns 12.5) (Returns 40) guest st_alice) = Some (JInt 0)"
proof -
  have g: "\<not> admin_session guest" by (simp add: admin_session_def guest_def)
  show ?thesis
    using g admin_guard [OF g, of "\<lambda>f t. ''2026''" st_alice "\<lambda>t. ''2026''" 7 "Returns 12.5" "Returns 40"]
    by (simp add: json_field_def)
qed

lemma user_row_raises:
  "user_row strftime d u = Raises ([CHR 0x27] @ ''User'' @ [CHR 0x27] @ '' object has no attribute ''
                   @ [CHR 0x27] @ ''full_name'' @ [CHR 0x27])"
  by (simp add: user_row_def getattr_user_def obind_def Let_def)

text \<open>
  C9.  For an admin session and a user table with at least one row,
  \<^verbatim>\<open>/api/users\<close> answers with status 500 and an error body: the first pass of the
  loop reads the attribute \<open>full_name\<close>, which the \<^verbatim>\<open>User\<close> model does not have.
\<close>

theorem get_users_list_fails:
  assumes "admin_session sess" and "db st = Some d" and "users d \<noteq> []"
  shows "get_users_list strftime sess st
         = \<lparr>body = Json (JObj [(''error'', JStr ([CHR 0x27] @ ''User'' @ [CHR 0x27] @ '' object has no attribute ''
                   @ [CHR 0x27] @ ''full_name'' @ [CHR 0x27]))]), status = 500\<rparr>"
proof -
  obtain u us where "users d = u # us" using assms(3) by (cases "users d") auto
  then have "user_rows strftime d (users d) [] = Raises ([CHR 0x27] @ ''User'' @ [CHR 0x27] @ '' object has no attribute ''
                   @ [CHR 0x27] @ ''full_name'' @ [CHR 0x27])"
    by (simp add: user_row_raises obind_def)
  then show ?thesis using assms by (simp add: get_users_list_def server_error_def)
qed

text \<open>
  A run of C9: the admin asks for the users while \<open>alice\<close> is stored.
\<close>

theorem get_users_list_fails_witness:
  "admin_session admin0 \<and> users \<lparr>users = [alice], logs = []\<rparr> \<noteq> []
   \<and> status (get_users_list (\<lambda>f t. ''2026'') admin0 st_alice) = 500
   \<and> json_field ''error'' (get_users_list (\<lambda>f t. ''2026'') admin0 st_alice)
       = Some (JStr ([CHR 0x27] @ ''User'' @ [CHR 0x27] @ '' object has no attribute ''
                     @ [CHR 0x27] @ ''full_name'' @ [CHR 0x27]))"
  using get_users_list_fails [of admin0 st_alice "\<lparr>users = [alice], logs = []\<rparr>" "\<lambda>f t. ''2026''"]
  by (simp add: admin_session_def admin0_def st_alice_def json_field_def)

text \<open>
  C10.  The \<open>usage\<close> field of the answer of \<^verbatim>\<open>/api/stats\<close> is the same for any two
  requests on the same counters, whatever the sessions and the probes: it is the
  counter dictionary.  The answer has status 200 and the fields \<open>cpu\<close>, \<open>ram\<close> and
  \<open>usage\<close> only, and \<open>cpu\<close> and \<open>ram\<close> are 0 for every session that is not an admin
  session.
\<close>

theorem stats_usage_independent:
  "json_field ''usage'' (get_stats cpu ram sess1 st) = json_field ''usage'' (get_stats cpu' ram' sess2 st)
   \<and> json_field ''usage'' (get_stats cpu ram sess1 st) = Some (JObj (map (\<lambda>(k, v). (k, JInt v)) (global_stats st)))
   \<and> status (get_stats cpu ram sess1 st) = 200
   \<and> (\<exists>c r. body (get_stats cpu ram sess1 st) = Json (JObj [(''cpu'', c), (''ram'', r), (''usage'', JObj (map (\<lambda>(k, v). (k, JInt v)) (global_stats st)))]))
   \<and> (\<not> admin_session sess1 \<longrightarrow> json_field ''cpu'' (get_stats cpu ram sess1 st) = Some (JInt 0) \<and> json_field ''ram'' (get_stats cpu ram sess1 st) = Some (JInt 0))"
  by (auto simp: get_stats_def ok_json_def json_field_def split: outcome.splits)

text \<open>
  A run of C10: the guest and the admin see the same usage; the guest sees 0 for
  \<open>cpu\<close> and \<open>ram\<close>, the admin the value of the probe.
\<close>

theorem stats_usage_independent_witness:
  "\<not> admin_session guest \<and> admin_session admin0
   \<and> json_field ''usage'' (get_stats (Returns 12.5) (Returns 40) admin0 st0)
       = json_field ''usage'' (get_stats (Raises ''x'') (Raises ''x'') guest st0)
   \<and> json_field ''cpu'' (get_stats (Returns 12.5) (Returns 40) guest st0) = Some (JInt 0)
   \<and> json_field ''ram'' (get_stats (Returns 12.5) (Returns 40) guest st0) = Some (JInt 0)
   \<and> json_field ''cpu'' (get_stats (Returns 12.5) (Returns 40) admin0 st0) = Some (JFloat 12.5)"
  using stats_usage_independent [of "Returns 12.5" "Returns 40" admin0 st0 "Raises ''x''" "Raises ''x''" guest]
    stats_usage_independent [of "Returns 12.5" "Returns 40" guest st0 "Raises ''x''" "Raises ''x''" guest]
  by (simp add: admin_session_def guest_def admin0_def get_stats_def json_field_def ok_json_def)

section \<open>Failures of the delegated calls\<close>

lemma get_groq_response_raises:
  assumes "API_KEY cfg = Some k" and "k \<noteq> []"
    and "api (prompt_messages system_prompt user_prompt) = Raises e"
  shows "get_groq_response cfg api system_prompt user_prompt = ''AI Service Error: '' @ e"
  using assms by (simp add: get_groq_response_def)

text \<open>
  C2, as stated, fails: when the completion call raises, \<^verbatim>\<open>/generate-minutes\<close>
  answers 200 with \<open>success\<close> true, and the text of the failure stands in the place of
  the minutes.
\<close>

theorem delegated_failure_counterexample:
  "groq ext_down (prompt_messages ''Convert notes to minutes.'' (Some (form_get req0 ''notes'' [])))
     = Raises ''boom''
   \<and> fst (generate_minutes cfg0 ext_down req0 guest st0)
       = \<lparr>body = Json (JObj [(''success'', JBool True), (''minutes'', JStr ''AI Service Error: boom'')]),
          status = 200\<rparr>"
  by (simp add: ext_down_def generate_minutes_def cfg0_def req0_def get_groq_response_def
        form_get_def ok_json_def Let_def)

text \<open>
  C2, amended.  The text endpoints \<^verbatim>\<open>/generate-minutes\<close>, \<^verbatim>\<open>/generate-email\<close>,
  \<^verbatim>\<open>/review-code\<close> and \<^verbatim>\<open>/translate\<close> always answer 200 with \<open>success\<close> true;
  when the completion call that the handler makes raises (and the key is configured),
  the payload field holds the text \<open>AI Service Error: \<close> followed by the message of
  the exception.  \<^verbatim>\<open>/generate-quiz\<close> and \<^verbatim>\<open>/make-ppt\<close> go on with that text as
  with a completion: the quiz answers 200 with \<open>success\<close> true and the cleaned text
  when the PDF is written, the slides answer 200 with \<open>success\<close> true when the deck is
  saved.  The handlers with a \<^verbatim>\<open>try\<close> of their own around the delegated call
  (\<^verbatim>\<open>/chat\<close>, \<^verbatim>\<open>/text-to-audio\<close>, \<^verbatim>\<open>/audio-to-text\<close>, \<^verbatim>\<open>/convert-file\<close>,
  \<^verbatim>\<open>/compress-image\<close>, \<^verbatim>\<open>/text-to-pdf\<close>, \<^verbatim>\<open>/video-to-audio\<close>, and
  \<^verbatim>\<open>/generate-quiz\<close> for the writing of the PDF) answer an exception of that call
  with \<open>success\<close> false, the message of the exception as \<open>error\<close>, and status 500.
  Each hypothesis is about the one call the handler makes, with the messages it sends.
\<close>

theorem delegated_failure:
  "succeeded (fst (generate_minutes cfg ext req sess st))
   \<and> succeeded (fst (generate_email cfg ext req sess st))
   \<and> succeeded (fst (review_code cfg ext req sess st))
   \<and> succeeded (fst (translate cfg ext req sess st))
   \<and> status (fst (generate_minutes cfg ext req sess st)) = 200
   \<and> status (fst (generate_email cfg ext req sess st)) = 200
   \<and> status (fst (review_code cfg ext req sess st)) = 200
   \<and> status (fst (translate cfg ext req sess st)) = 200
   \<and> (API_KEY cfg = Some k \<and> k \<noteq> []
        \<and> groq ext (prompt_messages ''Convert notes to minutes.''
                      (Some (form_get req ''notes'' []))) = Raises e \<longrightarrow>
         json_field ''minutes'' (fst (generate_minutes cfg ext req sess st))
           = Some (JStr (''AI Service Error: '' @ e)))
   \<and> (API_KEY cfg = Some k \<and> k \<noteq> []
        \<and> groq ext (prompt_messages ''Write a professional email.''
                      (Some (''To: '' @ fstr (form req ''recipient'') @ '' Topic: ''
                             @ fstr (form req ''topic'')))) = Raises e \<longrightarrow>
         json_field ''email_content'' (fst (generate_email cfg ext req sess st))
           = Some (JStr (''AI Service Error: '' @ e)))
   \<and> (API_KEY cfg = Some k \<and> k \<noteq> []
        \<and> groq ext (prompt_messages ''Review code.'' (Some (form_get req ''code'' [])))
            = Raises e \<longrightarrow>
         json_field ''review'' (fst (review_code cfg ext req sess st))
           = Some (JStr (''AI Service Error: '' @ e)))
   \<and> (API_KEY cfg = Some k \<and> k \<noteq> []
        \<and> groq ext (prompt_messages (''Translate to '' @ fstr (form req ''target_language'') @ ''.'')
                      (form req ''text'')) = Raises e \<longrightarrow>
         json_field ''translation'' (fst (translate cfg ext req sess st))
           = Some (JStr (''AI Service Error: '' @ e)))
   \<and> (API_KEY cfg = Some k \<and> k \<noteq> []
        \<and> groq ext (prompt_messages ''You are a strict HTML quiz generator.''
                      (Some (quiz_prompt (form_get req ''count'' ''5'')
                                         (form_get req ''topic'' ''General Knowledge'')))) = Raises e
        \<and> pisa ext = Returns u \<longrightarrow>
         succeeded (fst (generate_quiz cfg ext req sess st))
         \<and> status (fst (generate_quiz cfg ext req sess st)) = 200
         \<and> json_field ''quiz'' (fst (generate_quiz cfg ext req sess st))
             = Some (JStr (clean_ai_text (Some (''AI Service Error: '' @ e)))))
   \<and> (API_KEY cfg = Some k \<and> k \<noteq> []
        \<and> groq ext (prompt_messages ppt_instruction
                      (Some (''TOPIC: '' @ form_get req ''topic'' ''Presentation''
                             @ ''\<newline>DETAILS: '' @ form_get req ''source_text'' []))) = Raises e
        \<and> pptx ext (clean_ai_text (Some (''AI Service Error: '' @ e))) = Returns u \<longrightarrow>
         succeeded (fst (make_ppt cfg ext req sess st))
         \<and> status (fst (make_ppt cfg ext req sess st)) = 200)
   \<and> (groq ext (chat_messages sess (form_get req ''message'' [])) = Raises e \<longrightarrow>
         fst (chat ext req sess st) = failure e 500)
   \<and> (pisa ext = Raises e
        \<and> get_groq_response cfg (groq ext) ''You are a strict HTML quiz generator.''
              (Some (quiz_prompt (form_get req ''count'' ''5'')
                                 (form_get req ''topic'' ''General Knowledge''))) \<noteq> [] \<longrightarrow>
         fst (generate_quiz cfg ext req sess st) = failure e 500)
   \<and> (gtts ext = Raises e \<longrightarrow> fst (text_to_audio ext req sess st) = failure e 500)
   \<and> (has_file req \<and> recognize_google ext = Raises e \<longrightarrow>
         fst (audio_to_text ext req sess st) = failure e 500)
   \<and> (has_file req \<and> pil ext = Raises e \<longrightarrow>
         fst (convert_file ext req sess st) = failure e 500
       \<and> fst (compress_image ext req sess st) = failure e 500)
   \<and> (pisa ext = Raises e \<longrightarrow> fst (text_to_pdf ext req sess st) = failure e 500)
   \<and> (has_file req \<and> moviepy ext = Raises e \<longrightarrow>
         fst (video_to_audio ext req sess st) = failure e 500)"
proof -
  have text_ok:
    "succeeded (fst (generate_minutes cfg ext req sess st))
     \<and> succeeded (fst (generate_email cfg ext req sess st))
     \<and> succeeded (fst (review_code cfg ext req sess st))
     \<and> succeeded (fst (translate cfg ext req sess st))
     \<and> status (fst (generate_minutes cfg ext req sess st)) = 200
     \<and> status (fst (generate_email cfg ext req sess st)) = 200
     \<and> status (fst (review_code cfg ext req sess st)) = 200
     \<and> status (fst (translate cfg ext req sess st)) = 200"
    by (simp add: succeeded_def json_field_def ok_json_def generate_minutes_def
          generate_email_def review_code_def translate_def Let_def)
  have payload:
    "json_field ''minutes'' (fst (generate_minutes cfg ext req sess st))
       = Some (JStr (get_groq_response cfg (groq ext) ''Convert notes to minutes.''
                       (Some (form_get req ''notes'' []))))"
    "json_field ''email_content'' (fst (generate_email cfg ext req sess st))
       = Some (JStr (get_groq_response cfg (groq ext) ''Write a professional email.''
                       (Some (''To: '' @ fstr (form req ''recipient'') @ '' Topic: ''
                              @ fstr (form req ''topic'')))))"
    "json_field ''review'' (fst (review_code cfg ext req sess st))
       = Some (JStr (get_groq_response cfg (groq ext) ''Review code.''
                       (Some (form_get req ''code'' []))))"
    "json_field ''translation'' (fst (translate cfg ext req sess st))
       = Some (JStr (get_groq_response cfg (groq ext)
                       (''Translate to '' @ fstr (form req ''target_language'') @ ''.'')
                       (form req ''text'')))"
    by (simp_all add: json_field_def ok_json_def generate_minutes_def generate_email_def
          review_code_def translate_def Let_def)
  have quiz_text:
    "succeeded (fst (generate_quiz cfg ext req sess st))
     \<and> status (fst (generate_quiz cfg ext req sess st)) = 200
     \<and> json_field ''quiz'' (fst (generate_quiz cfg ext req sess st))
         = Some (JStr (clean_ai_text (Some (''AI Service Error: '' @ e))))"
    if "API_KEY cfg = Some k" "k \<noteq> []"
      "groq ext (prompt_messages ''You are a strict HTML quiz generator.''
                      (Some (quiz_prompt (form_get req ''count'' ''5'')
                                         (form_get req ''topic'' ''General Knowledge'')))) = Raises e"
      "pisa ext = Returns u"
    using that
    by (simp add: generate_quiz_def get_groq_response_def succeeded_def json_field_def
          ok_json_def Let_def)
  have ppt_text:
    "succeeded (fst (make_ppt cfg ext req sess st))
     \<and> status (fst (make_ppt cfg ext req sess st)) = 200"
    if "API_KEY cfg = Some k" "k \<noteq> []"
      "groq ext (prompt_messages ppt_instruction
                      (Some (''TOPIC: '' @ form_get req ''topic'' ''Presentation''
                             @ ''\<newline>DETAILS: '' @ form_get req ''source_text'' []))) = Raises e"
      "pptx ext (clean_ai_text (Some (''AI Service Error: '' @ e))) = Returns u"
    using that
    by (simp add: make_ppt_def get_groq_response_def succeeded_def json_field_def
          ok_json_def file_url_def Let_def)
  have caught:
    "groq ext (chat_messages sess (form_get req ''message'' [])) = Raises e \<longrightarrow>
       fst (chat ext req sess st) = failure e 500"
    "pisa ext = Raises e
        \<and> get_groq_response cfg (groq ext) ''You are a strict HTML quiz generator.''
              (Some (quiz_prompt (form_get req ''count'' ''5'')
                                 (form_get req ''topic'' ''General Knowledge''))) \<noteq> [] \<longrightarrow>
       fst (generate_quiz cfg ext req sess st) = failure e 500"
    "gtts ext = Raises e \<longrightarrow> fst (text_to_audio ext req sess st) = failure e 500"
    "has_file req \<and> recognize_google ext = Raises e \<longrightarrow>
       fst (audio_to_text ext req sess st) = failure e 500"
    "has_file req \<and> pil ext = Raises e \<longrightarrow>
       fst (convert_file ext req sess st) = failure e 500
       \<and> fst (compress_image ext req sess st) = failure e 500"
    "pisa ext = Raises e \<longrightarrow> fst (text_to_pdf ext req sess st) = failure e 500"
    "has_file req \<and> moviepy ext = Raises e \<longrightarrow>
       fst (video_to_audio ext req sess st) = failure e 500"
    by (simp_all add: chat_def generate_quiz_def text_to_audio_def audio_to_text_def
          convert_file_def compress_image_def text_to_pdf_def video_to_audio_def Let_def)
  show ?thesis
    using text_ok payload quiz_text ppt_text caught get_groq_response_raises [of cfg k "groq ext"]
    by simp
qed

text \<open>
  Runs of the amended C2: in the environment in which every external call raises, and
  in one whose completion service raises on the prompt for minutes only, so that the
  minutes carry the failure text while the same service answers the chat.
\<close>

theorem delegated_failure_witness:
  "API_KEY cfg0 = Some ''gsk'' \<and> has_file req0 \<and> gtts ext_down = Raises ''boom''
   \<and> groq ext_down (prompt_messages (''Translate to '' @ fstr (form req0 ''target_language'') @ ''.'')
                      (form req0 ''text'')) = Raises ''boom''
   \<and> json_field ''translation'' (fst (translate cfg0 ext_down req0 guest st0))
       = Some (JStr ''AI Service Error: boom'')
   \<and> succeeded (fst (translate cfg0 ext_down req0 guest st0))
   \<and> fst (chat ext_down req0 guest st0) = failure ''boom'' 500
   \<and> fst (text_to_audio ext_down req0 guest st0) = failure ''boom'' 500
   \<and> fst (video_to_audio ext_down req0 guest st0) = failure ''boom'' 500
   \<and> groq ext_flaky (prompt_messages ''Convert notes to minutes.'' (Some (form_get req0 ''notes'' [])))
       = Raises ''boom''
   \<and> groq ext_flaky (chat_messages guest (form_get req0 ''message'' [])) = Returns ''fine''
   \<and> json_field ''minutes'' (fst (generate_minutes cfg0 ext_flaky req0 guest st0))
       = Some (JStr ''AI Service Error: boom'')"
proof -
  have key: "API_KEY cfg0 = Some ''gsk''" "''gsk'' \<noteq> []"
    by (simp_all add: cfg0_def)
  have uploads: "has_file req0"
    by (simp add: req0_def)
  have down: "gtts ext_down = Raises ''boom''" "moviepy ext_down = Raises ''boom''"
    "groq ext_down (prompt_messages (''Translate to '' @ fstr (form req0 ''target_language'') @ ''.'')
                      (form req0 ''text'')) = Raises ''boom''"
    "groq ext_down (chat_messages guest (form_get req0 ''message'' [])) = Raises ''boom''"
    by (simp_all add: ext_down_def)
  have flaky:
    "groq ext_flaky (prompt_messages ''Convert notes to minutes.'' (Some (form_get req0 ''notes'' [])))
       = Raises ''boom''"
    "groq ext_flaky (chat_messages guest (form_get req0 ''message'' [])) = Returns ''fine''"
    by (simp_all add: ext_flaky_def ext_ok_def prompt_messages_def chat_messages_def
          history_of_def guest_def)
  show ?thesis
    using delegated_failure [of cfg0 ext_down req0 guest st0 "''gsk''" "''boom''"]
      delegated_failure [of cfg0 ext_flaky req0 guest st0 "''gsk''" "''boom''"]
      key uploads down flaky
    by simp
qed

section \<open>What the sweep removes\<close>

lemma map_of_delete: "map_of (AList.delete k al) f = (if f = k then None else map_of al f)"
  by (simp add: delete_conv')

lemma sweep_map_of:
  "map_of (sweep now names dir) f =
     (case map_of dir f of
        None \<Rightarrow> None
      | Some e \<Rightarrow> if f \<in> set names \<and> is_file e \<and> now - mtime e > 1800 \<and> removable e
                  then None else Some e)"
proof (induction names arbitrary: dir)
  case Nil
  then show ?case by (simp split: option.splits)
next
  case (Cons n ns)
  show ?case
  proof (cases "map_of dir n")
    case None
    then show ?thesis by (auto simp: Cons split: option.splits)
  next
    case (Some e)
    show ?thesis
    proof (cases "is_file e \<and> now - mtime e > 1800 \<and> removable e")
      case True
      then have "sweep now (n # ns) dir = sweep now ns (AList.delete n dir)"
        using Some by (simp add: os_remove_def)
      then show ?thesis using Some True
        by (auto simp: Cons map_of_delete split: option.splits)
    next
      case False
      then have "sweep now (n # ns) dir = sweep now ns dir"
        using Some by (auto simp: os_remove_def)
      then show ?thesis using Some False
        by (auto simp: Cons split: option.splits)
    qed
  qed
qed

text \<open>
  A request never has the endpoint \<open>serve_static_files\<close>: the framework's rule for
  the same pattern and methods stands before it in the URL map.  So every request,
  a request for a static file too, starts the sweep.
\<close>

lemma first_match_shadowed:
  "first_match url_map method path \<noteq> Some ''serve_static_files''"
  by (simp add: url_map_def)

lemma before_request_sweeps:
  "before_request_cleanup method path now static_folder = cleanup_old_files now static_folder"
  by (simp add: before_request_cleanup_def request_endpoint_def first_match_shadowed)

text \<open>
  C4, as stated, fails: a regular file older than 30 minutes that cannot be removed
  stays in the directory, since the sweep passes over the exception of
  \<^verbatim>\<open>os.remove\<close>.
\<close>

theorem sweep_deletes_old_files_counterexample:
  "before_request_cleanup ''POST'' ''/chat'' 5000 (Some stale_locked) = Some stale_locked
   \<and> map_of stale_locked ''audio_1.mp3'' = Some \<lparr>is_file = True, mtime = 0, removable = False\<rparr>
   \<and> (5000 :: real) - 0 > 1800"
  by (simp add: before_request_sweeps cleanup_old_files_def stale_locked_def os_remove_def)

text \<open>
  C4, amended.  The sweep started on each incoming request, whatever its method and
  path, removes exactly the regular files whose modification time lies more than 1800
  seconds in the past and whose removal succeeds; every other entry (a file at most
  30 minutes old, an entry that is no regular file, a file that cannot be removed) is
  left as it is.  A directory that does not exist stays missing.
\<close>

theorem sweep_deletes_old_files:
  "before_request_cleanup method path now None = None
   \<and> (\<exists>dir'. before_request_cleanup method path now (Some dir) = Some dir'
         \<and> (\<forall>f. map_of dir' f =
               (case map_of dir f of
                  None \<Rightarrow> None
                | Some e \<Rightarrow> if is_file e \<and> now - mtime e > 1800 \<and> removable e
                            then None else Some e)))"
proof -
  have listed: "f \<in> set (map fst dir)" if "map_of dir f = Some e" for f e
    using that by (metis map_of_eq_None_iff option.distinct(1) set_map)
  have "map_of (sweep now (map fst dir) dir) f =
          (case map_of dir f of
             None \<Rightarrow> None
           | Some e \<Rightarrow> if is_file e \<and> now - mtime e > 1800 \<and> removable e
                       then None else Some e)" for f
    using listed [of f] by (simp add: sweep_map_of split: option.splits)
  then show ?thesis
    by (simp add: before_request_sweeps cleanup_old_files_def)
qed

text \<open>
  A run of the amended C4: on a request for a static file, of an old file, a fresh
  file and a directory, the sweep removes the old file only.
\<close>

theorem sweep_deletes_old_files_witness:
  "request_endpoint ''GET'' ''/static/doc_2.pdf'' = Some ''static''
   \<and> before_request_cleanup ''GET'' ''/static/doc_2.pdf'' 5000 (Some stale_and_fresh)
       = Some [(''doc_2.pdf'', \<lparr>is_file = True, mtime = 3200, removable = True\<rparr>),
               (''cache'', \<lparr>is_file = False, mtime = 0, removable = True\<rparr>)]
   \<and> map_of stale_and_fresh ''audio_1.mp3'' = Some \<lparr>is_file = True, mtime = 0, removable = True\<rparr>"
  using sweep_deletes_old_files [of "''GET''" "''/static/doc_2.pdf''" 5000 stale_and_fresh]
  by (simp add: stale_and_fresh_def before_request_sweeps cleanup_old_files_def os_remove_def
        request_endpoint_def url_map_def rule_matches_def get_methods_def)

end
